theory Spec2Isabelle
  imports Complex_Main "HOL-Library.Multiset"
begin

section \<open>Python values, dictionaries and the products table\<close>

text \<open>
  The backend passes products, parsed queries and search results around as Python
  dictionaries. A dictionary is an association list (insertion order, unique keys), a
  Python float is a \<open>real\<close> (no NaN, no rounding), \<open>str\<close> and \<open>bytes\<close> are character
  lists.

  A product dictionary is \<open>dict(row)\<close> of a \<open>sqlite3.Row\<close>, so its values are the five
  SQLite storage classes as Python sees them: \<open>None\<close>, \<open>int\<close>, \<open>float\<close>, \<open>str\<close>, \<open>bytes\<close>.
\<close>

datatype sqlval = Null | Integer int | Real real | Text string | Blob string

type_synonym row = "(string \<times> sqlval) list"

text \<open>What \<open>json.loads\<close> returns, and what a parsed query is made of.\<close>

datatype json =
    JNull
  | JBool bool
  | JInt int
  | JFloat real
  | JStr string
  | JList "json list"
  | JDict "(string \<times> json) list"

datatype error = DatabaseError | ValueError | TypeError | IndexError | APIError

text \<open>\<open>d.get(k)\<close> and \<open>d.get(k, default)\<close>: the default only replaces an absent key.\<close>

definition py_get :: "(string \<times> 'v) list \<Rightarrow> string \<Rightarrow> 'v \<Rightarrow> 'v" where
  "py_get d k dflt = (case map_of d k of None \<Rightarrow> dflt | Some v \<Rightarrow> v)"

text \<open>\<open>d[k] = v\<close>: replaces the value of a present key, appends an absent one.\<close>

fun dict_set :: "(string \<times> 'v) list \<Rightarrow> string \<Rightarrow> 'v \<Rightarrow> (string \<times> 'v) list" where
  "dict_set [] k v = [(k, v)]"
| "dict_set ((k', v') # d) k v = (if k' = k then (k, v) # d else (k', v') # dict_set d k v)"

text \<open>Python truthiness of a row value.\<close>

fun truthy :: "sqlval \<Rightarrow> bool" where
  "truthy Null = False"
| "truthy (Integer i) = (i \<noteq> 0)"
| "truthy (Real r) = (r \<noteq> 0)"
| "truthy (Text s) = (s \<noteq> [])"
| "truthy (Blob s) = (s \<noteq> [])"

text \<open>
  The SQLite file behind \<open>db_path\<close>: the rows of table \<open>products\<close> in scan order, each row a
  dictionary from column name to value, or \<open>None\<close> when connecting or querying fails
  (\<open>sqlite3.Error\<close>). A column that a row does not store reads as NULL.
\<close>

type_synonym database = "row list option"

definition select_cols :: "string list \<Rightarrow> row \<Rightarrow> row" where
  "select_cols cols r = map (\<lambda>c. (c, py_get r c Null)) cols"

text \<open>
  SQL comparison \<open>a = b\<close> in three-valued logic (\<open>None\<close> is NULL): numbers compare by
  value, text with text (byte by byte, the default collation), blobs with blobs, distinct
  storage classes are unequal. A declared column type can make SQLite convert a value
  before it compares (text \<open>'1'\<close> with the number 1); the statements below about queries
  are made for rows that hold text in \<open>sku\<close> and \<open>brand\<close> and an integer in \<open>in_stock\<close>, where
  no conversion changes the outcome.
\<close>

fun sql_eq :: "sqlval \<Rightarrow> sqlval \<Rightarrow> bool option" where
  "sql_eq Null _ = None"
| "sql_eq _ Null = None"
| "sql_eq (Integer a) (Integer b) = Some (a = b)"
| "sql_eq (Integer a) (Real b) = Some (of_int a = b)"
| "sql_eq (Real a) (Integer b) = Some (a = of_int b)"
| "sql_eq (Real a) (Real b) = Some (a = b)"
| "sql_eq (Text a) (Text b) = Some (a = b)"
| "sql_eq (Blob a) (Blob b) = Some (a = b)"
| "sql_eq _ _ = Some False"

text \<open>
  \<open>x NOT IN (y1, ..., yn)\<close> is true: always for the empty list (SQLite), otherwise when \<open>x\<close>
  compares unequal to every element.
\<close>

definition sql_not_in :: "sqlval \<Rightarrow> sqlval list \<Rightarrow> bool" where
  "sql_not_in x ys \<longleftrightarrow> ys = [] \<or> (\<forall>y \<in> set ys. sql_eq x y = Some False)"

text \<open>
  A statement parameter that \<open>sqlite3\<close> can bind: a Python \<open>int\<close> outside 64 bits raises
  \<open>OverflowError\<close>.
\<close>

definition bindable :: "sqlval \<Rightarrow> bool" where
  "bindable v = (case v of Integer i \<Rightarrow> - (2 ^ 63) \<le> i \<and> i < 2 ^ 63 | _ \<Rightarrow> True)"

text \<open>\<open>LIMIT n\<close>: a negative limit is no limit.\<close>

definition sql_limit :: "int \<Rightarrow> 'a list \<Rightarrow> 'a list" where
  "sql_limit n xs = (if n < 0 then xs else take (nat n) xs)"

text \<open>
  What lies outside the repository: the pickle decoder, the OpenAI embedding and chat
  endpoints (system prompt, user prompt), scikit-learn's cosine kernel, NumPy's
  \<open>argsort\<close>, \<open>json.loads\<close>, \<open>str()\<close> of a value and the rendering of a float with a
  given number of decimals. Python's \<open>str.lower\<close>, \<open>str.upper\<close>, \<open>str.title\<close> and
  \<open>str.split()\<close> follow the Unicode character database (case mappings of every script,
  white space beyond ASCII), so they are services of the interpreter as well. SQLite is
  built with a largest number of \<open>?\<close> parameters per statement (999 or 32766); a statement
  with more raises \<open>sqlite3.OperationalError\<close>.
\<close>

record externals =
  pickle_loads :: "string \<Rightarrow> real list option"
  embeddings_create :: "string \<Rightarrow> error + real list"
  cosine_kernel :: "real list \<Rightarrow> real list \<Rightarrow> real"
  np_argsort :: "real list \<Rightarrow> nat list"
  chat_create :: "string \<Rightarrow> string \<Rightarrow> error + string"
  json_loads :: "string \<Rightarrow> json option"
  py_str :: "sqlval \<Rightarrow> string"
  fmt_f :: "nat \<Rightarrow> real \<Rightarrow> string"
  str_lower :: "string \<Rightarrow> string"
  str_upper :: "string \<Rightarrow> string"
  str_title :: "string \<Rightarrow> string"
  str_split :: "string \<Rightarrow> string list"
  max_variable_number :: nat

section \<open>semantic\_search.py\<close>

text \<open>
  \<open>np.array(embeddings)\<close>: a matrix needs rows of one length; a ragged list raises
  \<open>ValueError\<close>.
\<close>

definition np_array :: "real list list \<Rightarrow> error + real list list" where
  "np_array vs = (if \<forall>v \<in> set vs. length v = length (hd vs) then Inr vs else Inl ValueError)"

text \<open>
  The loop of \<open>load_product_embeddings\<close> over the fetched rows: a row is kept when its
  payload is truthy and unpickles; a payload that is not \<open>bytes\<close> makes \<open>pickle.loads\<close>
  raise, and the row is skipped like one that does not decode.
\<close>

fun load_rows :: "externals \<Rightarrow> row list \<Rightarrow> row list \<times> real list list" where
  "load_rows ext [] = ([], [])"
| "load_rows ext (product # rows) =
     (let (products, embeddings) = load_rows ext rows in
      if truthy (py_get product ''embedding'' Null) then
        (case py_get product ''embedding'' Null of
           Blob b \<Rightarrow>
             (case pickle_loads ext b of
                Some embedding \<Rightarrow> (product # products, embedding # embeddings)
              | None \<Rightarrow> (products, embeddings))
         | _ \<Rightarrow> (products, embeddings))
      else (products, embeddings))"

definition load_product_embeddings ::
  "externals \<Rightarrow> database \<Rightarrow> error + (row list \<times> real list list)" where
  "load_product_embeddings ext db =
     (case db of
        None \<Rightarrow> Inl DatabaseError
      | Some table \<Rightarrow>
          (let fetched = map (select_cols [''sku'', ''product_name'', ''brand'', ''category'',
                                           ''sale_price'', ''embedding''])
                             (filter (\<lambda>row. py_get row ''embedding'' Null \<noteq> Null) table);
               (products, embeddings) = load_rows ext fetched
           in if embeddings \<noteq> [] then
                (case np_array embeddings of
                   Inl e \<Rightarrow> Inl e
                 | Inr m \<Rightarrow> Inr (products, m))
              else Inr (products, [])))"

definition embed_search_query :: "externals \<Rightarrow> string \<Rightarrow> error + real list" where
  "embed_search_query ext query_text = embeddings_create ext query_text"

text \<open>
  \<open>cosine_similarity(query_embedding, embeddings)[0]\<close>: one score per row; the library
  raises \<open>ValueError\<close> when the query has no component or a row has another length.
\<close>

definition cosine_similarity :: "externals \<Rightarrow> real list \<Rightarrow> real list list \<Rightarrow> error + real list" where
  "cosine_similarity ext q m =
     (if q \<noteq> [] \<and> (\<forall>p \<in> set m. length p = length q)
      then Inr (map (cosine_kernel ext q) m) else Inl ValueError)"

text \<open>Python's \<open>xs[start:]\<close>: a negative start counts from the end, both are clipped.\<close>

definition py_slice_from :: "int \<Rightarrow> 'a list \<Rightarrow> 'a list" where
  "py_slice_from start xs =
     (let n = int (length xs);
          s = (if start < 0 then max 0 (n + start) else min start n)
      in drop (nat s) xs)"

text \<open>\<open>np.argsort(similarities)[-top_k:][::-1]\<close>\<close>

definition top_indices :: "externals \<Rightarrow> real list \<Rightarrow> int \<Rightarrow> nat list" where
  "top_indices ext similarities top_k = rev (py_slice_from (- top_k) (np_argsort ext similarities))"

definition scored :: "row list \<Rightarrow> real list \<Rightarrow> nat \<Rightarrow> row" where
  "scored products similarities idx =
     dict_set (products ! idx) ''similarity'' (Real (similarities ! idx))"

text \<open>The result loop; an index outside the arrays raises \<open>IndexError\<close>.\<close>

definition build_results :: "row list \<Rightarrow> real list \<Rightarrow> nat list \<Rightarrow> error + row list" where
  "build_results products similarities idxs =
     (if \<forall>idx \<in> set idxs. idx < length products \<and> idx < length similarities
      then Inr (map (scored products similarities) idxs) else Inl IndexError)"

text \<open>The body of the \<open>try\<close> block of \<open>search_products\<close>, with what it raises.\<close>

definition search_products_try ::
  "externals \<Rightarrow> database \<Rightarrow> string \<Rightarrow> int \<Rightarrow> error + row list" where
  "search_products_try ext db query_text top_k =
     (case load_product_embeddings ext db of
        Inl e \<Rightarrow> Inl e
      | Inr (products, embeddings) \<Rightarrow>
          if length products = 0 then Inr []
          else
            (case embed_search_query ext query_text of
               Inl e \<Rightarrow> Inl e
             | Inr query_embedding \<Rightarrow>
                 (case cosine_similarity ext query_embedding embeddings of
                    Inl e \<Rightarrow> Inl e
                  | Inr similarities \<Rightarrow>
                      build_results products similarities
                        (top_indices ext similarities top_k))))"

text \<open>\<open>except Exception: ... return []\<close>\<close>

definition search_products :: "externals \<Rightarrow> database \<Rightarrow> string \<Rightarrow> int \<Rightarrow> row list" where
  "search_products ext db query_text top_k =
     (case search_products_try ext db query_text top_k of Inl e \<Rightarrow> [] | Inr results \<Rightarrow> results)"

definition hybrid_search :: "externals \<Rightarrow> database \<Rightarrow> string \<Rightarrow> int \<Rightarrow> row list" where
  "hybrid_search ext db query_text top_k = search_products ext db query_text top_k"

text \<open>
  NumPy's default \<open>argsort\<close> promises an ascending permutation of the indices and nothing
  about ties. On short arrays it is an insertion sort, which keeps ties in index order.
\<close>

definition argsort_stable :: "real list \<Rightarrow> nat list" where
  "argsort_stable xs = sort_key (\<lambda>i. xs ! i) [0..<length xs]"

definition is_argsort :: "real list \<Rightarrow> nat list \<Rightarrow> bool" where
  "is_argsort xs idxs \<longleftrightarrow>
     mset idxs = mset [0..<length xs] \<and> sorted (map (\<lambda>i. xs ! i) idxs)"

section \<open>Strings\<close>

definition NL :: string where
  "NL = [CHR 0x0A]"

definition DQ :: string where
  "DQ = [CHR 0x22]"

text \<open>
  \<open>needle in haystack\<close> on strings: the needle occurs as a contiguous run. A string is
  the list of the bytes of its UTF-8 encoding, in which one text occurs inside another
  exactly where its code points do.
\<close>

fun starts_with :: "string \<Rightarrow> string \<Rightarrow> bool" where
  "starts_with [] s = True"
| "starts_with (c # cs) [] = False"
| "starts_with (c # cs) (d # ds) = (c = d \<and> starts_with cs ds)"

fun is_substring :: "string \<Rightarrow> string \<Rightarrow> bool" where
  "is_substring needle [] = (needle = [])"
| "is_substring needle (c # cs) = (starts_with needle (c # cs) \<or> is_substring needle cs)"

text \<open>\<open>sep.join(parts)\<close>\<close>

fun py_join :: "string \<Rightarrow> string list \<Rightarrow> string" where
  "py_join sep [] = []"
| "py_join sep [x] = x"
| "py_join sep (x # y # ys) = x @ sep @ py_join sep (y # ys)"

section \<open>gpt\_query\_processor.py\<close>

text \<open>The instruction text sent with every query (abridged to its first sentence).\<close>

definition GPT_SYSTEM_PROMPT :: string where
  "GPT_SYSTEM_PROMPT = ''You are an expert assistant for an appliance parts distributor.''"

text \<open>\<open>call_gpt_api\<close> wraps whatever the client raises into a plain \<open>Exception\<close>.\<close>

definition call_gpt_api :: "externals \<Rightarrow> string \<Rightarrow> string \<Rightarrow> error + string" where
  "call_gpt_api ext system_prompt user_message =
     (case chat_create ext system_prompt user_message of
        Inl e \<Rightarrow> Inl APIError
      | Inr content \<Rightarrow> Inr content)"

definition brands :: "string list" where
  "brands = [''whirlpool'', ''ge'', ''samsung'', ''lg'', ''frigidaire'', ''bosch'',
             ''kitchenaid'', ''maytag'']"

definition categories :: "(string \<times> string list) list" where
  "categories =
     [(''refrigerator'', [''fridge'', ''refrigerator'', ''freezer'']),
      (''dishwasher'', [''dishwasher'']),
      (''washer'', [''washer'', ''washing machine'']),
      (''dryer'', [''dryer''])]"

definition detected_brand :: "externals \<Rightarrow> string \<Rightarrow> json" where
  "detected_brand ext query_text =
     (case find (\<lambda>brand. is_substring brand (str_lower ext query_text)) brands of
        None \<Rightarrow> JNull
      | Some brand \<Rightarrow> JStr (str_title ext brand))"

definition detected_category :: "externals \<Rightarrow> string \<Rightarrow> json" where
  "detected_category ext query_text =
     (case find (\<lambda>(category, keywords).
                   \<exists>keyword \<in> set keywords.
                     is_substring keyword (str_lower ext query_text))
                categories of
        None \<Rightarrow> JNull
      | Some (category, keywords) \<Rightarrow> JStr category)"

definition create_fallback_parse :: "externals \<Rightarrow> string \<Rightarrow> (string \<times> json) list" where
  "create_fallback_parse ext query_text =
     (let words = str_split ext (str_lower ext query_text) in
      [(''intent'', JStr ''find_part''),
       (''part_type'', JNull),
       (''brand'', detected_brand ext query_text),
       (''model_number'', JNull),
       (''category'', detected_category ext query_text),
       (''keywords'', JList (map JStr (take 10 words))),
       (''price_sensitivity'', JNull),
       (''urgency'', JStr ''normal''),
       (''fallback'', JBool True)])"

definition required_fields :: "string list" where
  "required_fields = [''intent'', ''part_type'', ''brand'', ''category'', ''keywords'']"

text \<open>
  The validation loop \<open>if field not in parsed_query: parsed_query[field] = None\<close> on whatever
  \<open>json.loads\<close> returned. On a list \<open>in\<close> is membership and on a string it is the
  substring test, and the assignment raises \<open>TypeError\<close> on both; on a number, a boolean
  or \<open>None\<close> the test itself raises.
\<close>

fun fill_required :: "json \<Rightarrow> string list \<Rightarrow> error + json" where
  "fill_required parsed_query [] = Inr parsed_query"
| "fill_required (JDict d) (field # rest) =
     fill_required (JDict (if map_of d field = None then dict_set d field JNull else d)) rest"
| "fill_required (JList l) (field # rest) =
     (if JStr field \<in> set l then fill_required (JList l) rest else Inl TypeError)"
| "fill_required (JStr s) (field # rest) =
     (if is_substring field s then fill_required (JStr s) rest else Inl TypeError)"
| "fill_required _ (field # rest) = Inl TypeError"

text \<open>
  \<open>parse_query_with_gpt\<close> with the client of the search system. Both handlers, for
  \<open>json.JSONDecodeError\<close> and for any other exception, return the fallback parse.
\<close>

definition parse_query_with_gpt :: "externals \<Rightarrow> string \<Rightarrow> json" where
  "parse_query_with_gpt ext query_text =
     (case call_gpt_api ext GPT_SYSTEM_PROMPT query_text of
        Inl e \<Rightarrow> JDict (create_fallback_parse ext query_text)
      | Inr response_text \<Rightarrow>
          (case json_loads ext response_text of
             None \<Rightarrow> JDict (create_fallback_parse ext query_text)
           | Some parsed_query \<Rightarrow>
               (case fill_required parsed_query required_fields of
                  Inl e \<Rightarrow> JDict (create_fallback_parse ext query_text)
                | Inr filled \<Rightarrow> filled)))"

definition extract_query_intent :: "externals \<Rightarrow> string \<Rightarrow> json" where
  "extract_query_intent ext query_text = parse_query_with_gpt ext query_text"

section \<open>gpt\_response\_generator.py\<close>

text \<open>The system instruction of the response calls (abridged to its first sentence).\<close>

definition RESPONSE_SYSTEM_PROMPT :: string where
  "RESPONSE_SYSTEM_PROMPT = ''You are a helpful sales assistant for an appliance parts company.''"

text \<open>
  \<open>f"{v:.2f}"\<close> and \<open>f"{v:.0f}"\<close>: numbers are rendered, \<open>None\<close> and \<open>bytes\<close> raise
  \<open>TypeError\<close>, a \<open>str\<close> raises \<open>ValueError\<close>.
\<close>

fun format_f :: "externals \<Rightarrow> nat \<Rightarrow> sqlval \<Rightarrow> error + string" where
  "format_f ext digits (Integer i) = Inr (fmt_f ext digits (of_int i))"
| "format_f ext digits (Real r) = Inr (fmt_f ext digits r)"
| "format_f ext digits (Text s) = Inl ValueError"
| "format_f ext digits Null = Inl TypeError"
| "format_f ext digits (Blob b) = Inl TypeError"

fun str_less :: "string \<Rightarrow> string \<Rightarrow> bool" where
  "str_less [] [] = False"
| "str_less [] (d # ds) = True"
| "str_less (c # cs) [] = False"
| "str_less (c # cs) (d # ds) =
     ((of_char c :: nat) < of_char d \<or> (c = d \<and> str_less cs ds))"

text \<open>\<open>a > b\<close> as Python evaluates it on row values.\<close>

fun py_gt :: "sqlval \<Rightarrow> sqlval \<Rightarrow> error + bool" where
  "py_gt (Integer a) (Integer b) = Inr (a > b)"
| "py_gt (Integer a) (Real b) = Inr (of_int a > b)"
| "py_gt (Real a) (Integer b) = Inr (a > of_int b)"
| "py_gt (Real a) (Real b) = Inr (a > b)"
| "py_gt (Text a) (Text b) = Inr (str_less b a)"
| "py_gt (Blob a) (Blob b) = Inr (str_less b a)"
| "py_gt _ _ = Inl TypeError"

text \<open>\<open>v[:n]\<close>: numbers are not subscriptable.\<close>

fun py_take :: "nat \<Rightarrow> sqlval \<Rightarrow> error + sqlval" where
  "py_take n (Text s) = Inr (Text (take n s))"
| "py_take n (Blob b) = Inr (Blob (take n b))"
| "py_take n _ = Inl TypeError"

text \<open>A loop body run over a list; the first exception ends the loop.\<close>

fun collect :: "('a \<Rightarrow> error + 'b) \<Rightarrow> 'a list \<Rightarrow> error + 'b list" where
  "collect f [] = Inr []"
| "collect f (x # xs) =
     (case f x of
        Inl e \<Rightarrow> Inl e
      | Inr y \<Rightarrow> (case collect f xs of Inl e \<Rightarrow> Inl e | Inr ys \<Rightarrow> Inr (y # ys)))"

definition price_lines :: "externals \<Rightarrow> row \<Rightarrow> error + string list" where
  "price_lines ext product =
     (let regular_price = py_get product ''regular_price'' Null;
          sale_price = py_get product ''sale_price'' Null
      in if truthy sale_price then
           (case (if truthy regular_price then py_gt regular_price sale_price else Inr False) of
              Inl e \<Rightarrow> Inl e
            | Inr True \<Rightarrow>
                (let discount = py_get product ''discount_percent'' (Integer 0) in
                 case format_f ext 2 sale_price of
                   Inl e \<Rightarrow> Inl e
                 | Inr sp \<Rightarrow>
                     (case format_f ext 2 regular_price of
                        Inl e \<Rightarrow> Inl e
                      | Inr rp \<Rightarrow>
                          (case format_f ext 0 discount of
                             Inl e \<Rightarrow> Inl e
                           | Inr dc \<Rightarrow>
                               Inr [''- Price: $'' @ sp @ '' (was $'' @ rp @ '', '' @ dc
                                    @ ''% off)''])))
            | Inr False \<Rightarrow>
                (case format_f ext 2 sale_price of
                   Inl e \<Rightarrow> Inl e
                 | Inr sp \<Rightarrow> Inr [''- Price: $'' @ sp]))
         else Inr [])"

definition stock_lines :: "externals \<Rightarrow> row \<Rightarrow> string list" where
  "stock_lines ext product =
     (let stock_status = py_get product ''stock_status'' (Text ''Unknown'');
          in_stock = py_get product ''in_stock'' (Integer 0)
      in if truthy in_stock
         then [''- Stock: '' @ py_str ext stock_status @ [CHR 0x20, CHR 0xE2, CHR 0x9C, CHR 0x93]]
         else [''- Stock: '' @ py_str ext stock_status])"

definition models_lines :: "externals \<Rightarrow> row \<Rightarrow> error + string list" where
  "models_lines ext product =
     (if truthy (py_get product ''compatible_models'' Null) then
        (case py_take 200 (py_get product ''compatible_models'' Null) of
           Inl e \<Rightarrow> Inl e
         | Inr models \<Rightarrow> Inr [''- Compatible Models: '' @ py_str ext models])
      else Inr [])"

definition description_lines :: "externals \<Rightarrow> bool \<Rightarrow> row \<Rightarrow> error + string list" where
  "description_lines ext include_descriptions product =
     (if include_descriptions \<and> truthy (py_get product ''description'' Null) then
        (case py_take 150 (py_get product ''description'' Null) of
           Inl e \<Rightarrow> Inl e
         | Inr desc \<Rightarrow> Inr [''- Description: '' @ py_str ext desc @ ''...''])
      else Inr [])"

definition score_lines :: "externals \<Rightarrow> row \<Rightarrow> error + string list" where
  "score_lines ext product =
     (if py_get product ''similarity_score'' Null \<noteq> Null then
        (case format_f ext 2 (py_get product ''similarity_score'' Null) of
           Inl e \<Rightarrow> Inl e
         | Inr sc \<Rightarrow> Inr [''- Match Score: '' @ sc @ ''/1.00''])
      else Inr [])"

text \<open>The body of the loop of \<open>format_products_for_gpt\<close> for product number \<open>i\<close>.\<close>

definition format_product :: "externals \<Rightarrow> bool \<Rightarrow> nat \<times> row \<Rightarrow> error + string" where
  "format_product ext include_descriptions ip =
     (let i = fst ip; product = snd ip;
          parts = [NL @ ''Product '' @ py_str ext (Integer (int i)) @ '':'',
                   ''- Name: '' @ py_str ext (py_get product ''product_name'' (Text ''N/A'')),
                   ''- SKU: '' @ py_str ext (py_get product ''sku'' (Text ''N/A''))]
                  @ (if truthy (py_get product ''brand'' Null)
                     then [''- Brand: '' @ py_str ext (py_get product ''brand'' Null)] else [])
      in case price_lines ext product of
           Inl e \<Rightarrow> Inl e
         | Inr price \<Rightarrow>
             (case models_lines ext product of
                Inl e \<Rightarrow> Inl e
              | Inr models \<Rightarrow>
                  (case description_lines ext include_descriptions product of
                     Inl e \<Rightarrow> Inl e
                   | Inr desc \<Rightarrow>
                       (case score_lines ext product of
                          Inl e \<Rightarrow> Inl e
                        | Inr score \<Rightarrow>
                            Inr (py_join NL (parts @ price @ stock_lines ext product @ models
                                             @ desc @ score))))))"

definition format_products_for_gpt :: "externals \<Rightarrow> row list \<Rightarrow> bool \<Rightarrow> error + string" where
  "format_products_for_gpt ext products include_descriptions =
     (if products = [] then Inr ''No products found matching the criteria.''
      else
        (case collect (format_product ext include_descriptions)
                (zip [1..<Suc (length products)] products) of
           Inl e \<Rightarrow> Inl e
         | Inr formatted_parts \<Rightarrow> Inr (py_join NL formatted_parts)))"

definition format_upsell :: "externals \<Rightarrow> row \<Rightarrow> error + string" where
  "format_upsell ext product =
     (case format_f ext 2 (py_get product ''sale_price'' (Integer 0)) of
        Inl e \<Rightarrow> Inl e
      | Inr price \<Rightarrow>
          Inr (py_join '' ''
                 ([''- '' @ py_str ext (py_get product ''product_name'' Null) @ '' ($'' @ price
                   @ '')'']
                  @ (if truthy (py_get product ''category'' Null)
                     then [''  Category: '' @ py_str ext (py_get product ''category'' Null)]
                     else []))))"

definition format_upsells_for_gpt :: "externals \<Rightarrow> row list \<Rightarrow> error + string" where
  "format_upsells_for_gpt ext upsell_products =
     (if upsell_products = [] then Inr ''No upsell suggestions available.''
      else
        (case collect (format_upsell ext) upsell_products of
           Inl e \<Rightarrow> Inl e
         | Inr formatted_parts \<Rightarrow> Inr (py_join NL formatted_parts)))"

text \<open>
  \<open>suggest_upsells\<close> up to its \<open>return\<close> statements: both the \<open>try\<close> body and the handler
  return, so the statements written after the handler (a price range of half to one and
  a half times the first product's price, \<open>category != ?\<close>, \<open>ORDER BY RANDOM()\<close>) never
  run. \<open>primary_category\<close> is read and not used. The statement has one parameter for each
  primary SKU, one for the brand and one for the limit; when it cannot be prepared or
  bound, the handler returns the empty list.
\<close>

definition suggest_upsells :: "externals \<Rightarrow> database \<Rightarrow> row list \<Rightarrow> int \<Rightarrow> row list" where
  "suggest_upsells ext db primary_products num_suggestions =
     (if primary_products = [] then []
      else
        (case db of
           None \<Rightarrow> []
         | Some table \<Rightarrow>
             (let primary_brand = py_get (hd primary_products) ''brand'' (Text []);
                  primary_skus = filter truthy (map (\<lambda>p. py_get p ''sku'' Null) primary_products);
                  params = primary_skus @ [primary_brand, Integer num_suggestions]
              in if length params \<le> max_variable_number ext \<and> (\<forall>v \<in> set params. bindable v)
                 then
                   sql_limit num_suggestions
                     (filter (\<lambda>r. sql_not_in (py_get r ''sku'' Null) primary_skus
                                 \<and> sql_eq (py_get r ''brand'' Null) primary_brand = Some True
                                 \<and> sql_eq (py_get r ''in_stock'' Null) (Integer 1) = Some True)
                             table)
                 else [])))"

definition no_results_prompt :: "string \<Rightarrow> string" where
  "no_results_prompt query_text =
     NL @ ''Customer Query: '' @ DQ @ query_text @ DQ @ NL @ NL
     @ ''No exact matches were found for this query.'' @ NL @ NL
     @ ''Please provide a helpful response that:'' @ NL
     @ ''1. Acknowledges we couldn't find exact matches'' @ NL
     @ ''2. Suggests broadening the search (e.g., different brand, category)'' @ NL
     @ ''3. Offers to help with more information'' @ NL
     @ ''4. Remains friendly and professional'' @ NL @ NL
     @ ''Keep it under 100 words.'' @ NL"

definition no_results_apology :: string where
  "no_results_apology =
     ''I couldn't find exact matches for your query. ''
     @ ''Could you provide more details like the brand, model number, or appliance type? ''
     @ ''I'm here to help you find the right part!''"

definition generate_no_results_response :: "externals \<Rightarrow> string \<Rightarrow> json \<Rightarrow> string" where
  "generate_no_results_response ext query_text parsed_query =
     (case chat_create ext RESPONSE_SYSTEM_PROMPT (no_results_prompt query_text) of
        Inr content \<Rightarrow> content
      | Inl e \<Rightarrow> no_results_apology)"

definition fallback_product_lines :: "externals \<Rightarrow> nat \<times> row \<Rightarrow> error + string list" where
  "fallback_product_lines ext ip =
     (let i = fst ip; product = snd ip;
          name = py_get product ''product_name'' (Text ''Unknown'');
          sku = py_get product ''sku'' (Text ''N/A'');
          price = py_get product ''sale_price'' (Integer 0);
          stock = (if truthy (py_get product ''in_stock'' Null)
                   then ''In Stock'' else ''Out of Stock'')
      in case format_f ext 2 price of
           Inl e \<Rightarrow> Inl e
         | Inr pr \<Rightarrow>
             Inr [py_str ext (Integer (int i)) @ ''. **'' @ py_str ext name @ ''** (SKU: ''
                  @ py_str ext sku @ '')'',
                  ''   $'' @ pr @ '' - '' @ stock])"

definition fallback_upsell_line :: "externals \<Rightarrow> row \<Rightarrow> error + string" where
  "fallback_upsell_line ext upsell =
     (let name = py_get upsell ''product_name'' (Text ''Unknown'');
          price = py_get upsell ''sale_price'' (Integer 0)
      in case format_f ext 2 price of
           Inl e \<Rightarrow> Inl e
         | Inr pr \<Rightarrow> Inr (''- '' @ py_str ext name @ '' ($'' @ pr @ '')''))"

definition generate_fallback_response :: "externals \<Rightarrow> row list \<Rightarrow> row list \<Rightarrow> error + string" where
  "generate_fallback_response ext products upsells =
     (if products = [] then
        Inr ''No products found matching your criteria. Please try a different search.''
      else
        (case collect (fallback_product_lines ext) (zip [1..<4] (take 3 products)) of
           Inl e \<Rightarrow> Inl e
         | Inr product_lines \<Rightarrow>
             (case (if upsells \<noteq> [] then
                      (case collect (fallback_upsell_line ext) (take 2 upsells) of
                         Inl e \<Rightarrow> Inl e
                       | Inr upsell_lines \<Rightarrow>
                           Inr ((NL @ ''**Customers also purchased:**'') # upsell_lines))
                    else Inr []) of
                Inl e \<Rightarrow> Inl e
              | Inr upsell_part \<Rightarrow>
                  Inr (py_join NL ((''I found these products for you:'' @ NL)
                                   # concat product_lines @ upsell_part)))))"

definition user_prompt :: "string \<Rightarrow> string \<Rightarrow> string \<Rightarrow> string" where
  "user_prompt query_text products_text upsells_text =
     NL @ ''Customer Query: '' @ DQ @ query_text @ DQ @ NL @ NL
     @ ''Found Products:'' @ NL @ products_text @ NL @ upsells_text @ NL @ NL
     @ ''Please provide a helpful, conversational response recommending these products ''
     @ ''to the customer.'' @ NL
     @ ''Highlight the best match, mention pricing, and suggest the upsells as ''
     @ DQ @ ''customers also purchased'' @ DQ @ '' items.'' @ NL
     @ ''Keep it friendly and under 150 words.'' @ NL"

text \<open>
  \<open>generate_response\<close>: \<open>products\<close> and \<open>parsed_query\<close> are the entries \<open>'results'\<close> and
  \<open>'parsed_query'\<close> of \<open>search_results\<close>, \<open>config_db\<close> is the database at
  \<open>config.DATABASE_PATH\<close>. Only the chat call stands inside a \<open>try\<close>.
\<close>

definition generate_response ::
  "externals \<Rightarrow> database \<Rightarrow> string \<Rightarrow> row list \<Rightarrow> json \<Rightarrow> bool \<Rightarrow> error + string" where
  "generate_response ext config_db query_text products parsed_query include_upsells =
     (if products = [] then Inr (generate_no_results_response ext query_text parsed_query)
      else
        (let top_products = take 3 products in
         case format_products_for_gpt ext top_products False of
           Inl e \<Rightarrow> Inl e
         | Inr products_text \<Rightarrow>
             (let upsells = (if include_upsells then suggest_upsells ext config_db top_products 2
                             else [])
              in case (if include_upsells \<and> upsells \<noteq> [] then
                         (case format_upsells_for_gpt ext upsells of
                            Inl e \<Rightarrow> Inl e
                          | Inr t \<Rightarrow>
                              Inr (NL @ NL @ ''Complementary Products (Upsells):'' @ NL @ t))
                       else Inr []) of
                   Inl e \<Rightarrow> Inl e
                 | Inr upsells_text \<Rightarrow>
                     (case chat_create ext RESPONSE_SYSTEM_PROMPT
                             (user_prompt query_text products_text upsells_text) of
                        Inr content \<Rightarrow> Inr content
                      | Inl e \<Rightarrow> generate_fallback_response ext top_products upsells))))"

section \<open>intelligent\_search.py\<close>

text \<open>What \<open>search\<close> returns: the raw dictionary or the response text.\<close>

datatype search_output =
    Raw (raw_query: string) (raw_parsed_query: json) (raw_products: "row list")
        (raw_response: string)
  | Response string

text \<open>
  \<open>IntelligentSearchSystem.search\<close>; \<open>db\<close> is the database at \<open>self.db_path\<close>.
\<close>

definition search ::
  "externals \<Rightarrow> database \<Rightarrow> database \<Rightarrow> string \<Rightarrow> int \<Rightarrow> bool \<Rightarrow> bool \<Rightarrow> error + search_output"
  where
  "search ext db config_db query_text top_k include_upsells return_raw =
     (let parsed_query = extract_query_intent ext query_text;
          search_results = hybrid_search ext db query_text top_k
      in case generate_response ext config_db query_text search_results parsed_query
                include_upsells of
           Inl e \<Rightarrow> Inl e
         | Inr response_text \<Rightarrow>
             (if return_raw then Inr (Raw query_text parsed_query search_results response_text)
              else Inr (Response response_text)))"

text \<open>\<open>IntelligentSearchSystem.get_product_details\<close>: \<open>WHERE sku = ? LIMIT 1\<close>.\<close>

definition get_product_details ::
  "externals \<Rightarrow> database \<Rightarrow> string \<Rightarrow> error + row option" where
  "get_product_details ext db sku =
     (case db of
        None \<Rightarrow> Inl DatabaseError
      | Some table \<Rightarrow>
          Inr (find (\<lambda>r. sql_eq (py_get r ''sku'' Null) (Text (str_upper ext sku)) = Some True)
                    table))"

section \<open>Notions used in the statements\<close>

text \<open>The score that \<open>search_products\<close> stored in a result.\<close>

definition similarity_of :: "row \<Rightarrow> real" where
  "similarity_of r = (case py_get r ''similarity'' Null of Real s \<Rightarrow> s | _ \<Rightarrow> 0)"

text \<open>A row has a decodable embedding payload: non-empty bytes that unpickle.\<close>

definition decodable :: "externals \<Rightarrow> row \<Rightarrow> bool" where
  "decodable ext r =
     (case py_get r ''embedding'' Null of
        Blob b \<Rightarrow> b \<noteq> [] \<and> pickle_loads ext b \<noteq> None
      | _ \<Rightarrow> False)"

definition is_number :: "sqlval \<Rightarrow> bool" where
  "is_number v = (case v of Integer i \<Rightarrow> True | Real r \<Rightarrow> True | _ \<Rightarrow> False)"

text \<open>
  The columns that the queries compare, typed as \<open>ProductResult\<close> of the API declares
  them: \<open>sku\<close> a string, \<open>brand\<close> an optional string, \<open>in_stock\<close> an optional flag (stored as
  0 or 1); a catalogue row may lack any of them (NULL).
\<close>

definition text_or_null :: "sqlval \<Rightarrow> bool" where
  "text_or_null v = (case v of Null \<Rightarrow> True | Text s \<Rightarrow> True | _ \<Rightarrow> False)"

definition int_or_null :: "sqlval \<Rightarrow> bool" where
  "int_or_null v = (case v of Null \<Rightarrow> True | Integer i \<Rightarrow> True | _ \<Rightarrow> False)"

definition typed_row :: "row \<Rightarrow> bool" where
  "typed_row r \<longleftrightarrow>
     text_or_null (py_get r ''sku'' Null) \<and> text_or_null (py_get r ''brand'' Null)
     \<and> int_or_null (py_get r ''in_stock'' Null)"

text \<open>A product with a SKU: a typed row whose \<open>sku\<close> is a non-empty string.\<close>

definition has_sku :: "row \<Rightarrow> bool" where
  "has_sku p \<longleftrightarrow>
     typed_row p \<and> (case py_get p ''sku'' Null of Text s \<Rightarrow> s \<noteq> [] | _ \<Rightarrow> False)"

text \<open>The upsells that \<open>generate_response\<close> works with.\<close>

definition upsells_of :: "externals \<Rightarrow> database \<Rightarrow> row list \<Rightarrow> bool \<Rightarrow> row list" where
  "upsells_of ext config_db products include_upsells =
     (if include_upsells then suggest_upsells ext config_db (take 3 products) 2 else [])"

section \<open>A small catalogue\<close>

definition dot :: "real list \<Rightarrow> real list \<Rightarrow> real" where
  "dot q p = sum_list (map2 (*) q p)"

text \<open>
  The string services of the examples. All strings of the examples are ASCII, and on ASCII
  strings \<open>str.lower\<close>, \<open>str.upper\<close>, \<open>str.title\<close> and \<open>str.split()\<close> are the
  following functions.
\<close>

definition ascii_lower_char :: "char \<Rightarrow> char" where
  "ascii_lower_char c =
     (case map_of (zip ''ABCDEFGHIJKLMNOPQRSTUVWXYZ'' ''abcdefghijklmnopqrstuvwxyz'') c of
        Some l \<Rightarrow> l | None \<Rightarrow> c)"

definition ascii_upper_char :: "char \<Rightarrow> char" where
  "ascii_upper_char c =
     (case map_of (zip ''abcdefghijklmnopqrstuvwxyz'' ''ABCDEFGHIJKLMNOPQRSTUVWXYZ'') c of
        Some u \<Rightarrow> u | None \<Rightarrow> c)"

definition ascii_lower :: "string \<Rightarrow> string" where
  "ascii_lower s = map ascii_lower_char s"

definition ascii_upper :: "string \<Rightarrow> string" where
  "ascii_upper s = map ascii_upper_char s"

definition ascii_alpha :: "char \<Rightarrow> bool" where
  "ascii_alpha c \<longleftrightarrow> c \<in> set ''ABCDEFGHIJKLMNOPQRSTUVWXYZabcdefghijklmnopqrstuvwxyz''"

text \<open>Title case: a letter that follows a letter is lowered, any other letter is raised.\<close>

fun ascii_title_from :: "bool \<Rightarrow> string \<Rightarrow> string" where
  "ascii_title_from prev [] = []"
| "ascii_title_from prev (c # cs) =
     (if ascii_alpha c
      then (if prev then ascii_lower_char c else ascii_upper_char c) # ascii_title_from True cs
      else c # ascii_title_from False cs)"

definition ascii_title :: "string \<Rightarrow> string" where
  "ascii_title s = ascii_title_from False s"

text \<open>The white space below code point 128.\<close>

definition ascii_space :: "char \<Rightarrow> bool" where
  "ascii_space c \<longleftrightarrow>
     c \<in> set [CHR 0x20, CHR 0x09, CHR 0x0A, CHR 0x0B, CHR 0x0C, CHR 0x0D,
              CHR 0x1C, CHR 0x1D, CHR 0x1E, CHR 0x1F]"

text \<open>The maximal runs of characters that are not white space.\<close>

fun ascii_split_from :: "string \<Rightarrow> string \<Rightarrow> string list" where
  "ascii_split_from cur [] = (if cur = [] then [] else [cur])"
| "ascii_split_from cur (c # cs) =
     (if ascii_space c
      then (if cur = [] then ascii_split_from [] cs else cur # ascii_split_from [] cs)
      else ascii_split_from (cur @ [c]) cs)"

definition ascii_split :: "string \<Rightarrow> string list" where
  "ascii_split s = ascii_split_from [] s"

text \<open>
  Services for the examples: three payloads decode to unit vectors, the embedding
  endpoint is down for the query \<open>offline\<close>, the chat endpoint is down.
\<close>

definition demo_ext :: externals where
  "demo_ext = \<lparr>
     pickle_loads = (\<lambda>b. if b = ''a'' then Some [1, 0] else if b = ''b'' then Some [0, 1]
                         else if b = ''c'' then Some [1, 0] else None),
     embeddings_create = (\<lambda>q. if q = ''offline'' then Inl APIError else Inr [1, 0]),
     cosine_kernel = dot,
     np_argsort = argsort_stable,
     chat_create = (\<lambda>system_prompt user_message. Inl APIError),
     json_loads = (\<lambda>s. None),
     py_str = (\<lambda>v. case v of Text s \<Rightarrow> s | Integer i \<Rightarrow> (if i = 1 then ''1'' else ''2'')
                     | _ \<Rightarrow> ''None''),
     fmt_f = (\<lambda>digits r. ''9.99''),
     str_lower = ascii_lower,
     str_upper = ascii_upper,
     str_title = ascii_title,
     str_split = ascii_split,
     max_variable_number = 999 \<rparr>"

text \<open>The chat endpoint answers every prompt with \<open>reply\<close>, which parses as \<open>parsed\<close>.\<close>

definition demo_chat :: "string \<Rightarrow> json option \<Rightarrow> externals" where
  "demo_chat reply parsed =
     demo_ext\<lparr> chat_create := (\<lambda>system_prompt user_message. Inr reply),
               json_loads := (\<lambda>s. if s = reply then parsed else None) \<rparr>"

definition demo_row :: "string \<Rightarrow> string \<Rightarrow> string \<Rightarrow> sqlval \<Rightarrow> sqlval \<Rightarrow> int \<Rightarrow> row" where
  "demo_row s b c price payload stock =
     [(''sku'', Text s), (''product_name'', Text (''Part '' @ s)), (''brand'', Text b),
      (''category'', Text c), (''sale_price'', price), (''in_stock'', Integer stock),
      (''embedding'', payload)]"

definition demo_A :: row where
  "demo_A = demo_row ''A'' ''GE'' ''Refrigerator'' (Real 10) (Blob ''a'') 1"

definition demo_B :: row where
  "demo_B = demo_row ''B'' ''LG'' ''Dryer'' (Real 100) (Blob ''b'') 1"

definition demo_C :: row where
  "demo_C = demo_row ''C'' ''GE'' ''Refrigerator'' (Real 40) (Blob ''c'') 1"

definition demo_D :: row where
  "demo_D = demo_row ''D'' ''GE'' ''Washer'' (Real 500) Null 1"

definition demo_E :: row where
  "demo_E = demo_row ''E'' ''GE'' ''Washer'' Null (Blob ''zz'') 0"

definition demo_db :: database where
  "demo_db = Some [demo_A, demo_B, demo_C, demo_D, demo_E]"

text \<open>What \<open>load_product_embeddings\<close> selects of a row.\<close>

definition loaded :: "row \<Rightarrow> row" where
  "loaded r = select_cols [''sku'', ''product_name'', ''brand'', ''category'', ''sale_price'',
                           ''embedding''] r"

section \<open>Dictionaries and strings\<close>

lemma map_of_dict_set: "map_of (dict_set d k v) k' = (if k' = k then Some v else map_of d k')"
  by (induction d) auto


lemma starts_with_iff: "starts_with n h \<longleftrightarrow> (\<exists>s. h = n @ s)"
  by (induction n h rule: starts_with.induct) auto

lemma is_substring_iff: "is_substring n h \<longleftrightarrow> (\<exists>p s. h = p @ n @ s)"
proof (induction h)
  case Nil
  show ?case by auto
next
  case (Cons c cs)
  show ?case
  proof
    assume "is_substring n (c # cs)"
    then consider "starts_with n (c # cs)" | "is_substring n cs" by auto
    then show "\<exists>p s. c # cs = p @ n @ s"
    proof cases
      case 1
      then obtain s where "c # cs = n @ s" by (auto simp: starts_with_iff)
      then have "c # cs = [] @ n @ s" by simp
      then show ?thesis by blast
    next
      case 2
      then obtain p s where "cs = p @ n @ s" using Cons.IH by blast
      then have "c # cs = (c # p) @ n @ s" by simp
      then show ?thesis by blast
    qed
  next
    assume "\<exists>p s. c # cs = p @ n @ s"
    then obtain p s where ps: "c # cs = p @ n @ s" by blast
    show "is_substring n (c # cs)"
    proof (cases p)
      case Nil
      with ps have "starts_with n (c # cs)" by (auto simp: starts_with_iff)
      then show ?thesis by simp
    next
      case (Cons a p')
      with ps have "cs = p' @ n @ s" by simp
      then have "is_substring n cs" using Cons.IH by blast
      then show ?thesis by simp
    qed
  qed
qed

lemma py_join_Cons: "\<exists>t. py_join sep (x # xs) = x @ t"
  by (cases xs) auto

lemma sql_eq_Text: "sql_eq v (Text t) = Some True \<longleftrightarrow> v = Text t"
  by (cases v) auto

lemma sql_eq_one: "sql_eq v (Integer 1) = Some True \<longleftrightarrow> v = Integer 1 \<or> v = Real 1"
  by (cases v) auto

lemma sql_eq_same: "sql_eq x x \<noteq> Some False"
  by (cases x) auto

section \<open>Ranking\<close>


lemma load_rows_length: "load_rows ext rows = (ps, es) \<Longrightarrow> length ps = length es"
  by (induction rows arbitrary: ps es)
     (auto simp: Let_def split: prod.splits if_splits sqlval.splits option.splits)

lemma load_product_embeddings_length:
  assumes "load_product_embeddings ext db = Inr (ps, m)"
  shows "length ps = length m"
  using assms load_rows_length
  by (fastforce simp: load_product_embeddings_def Let_def np_array_def
      split: option.splits prod.splits if_splits sum.splits)

lemma cosine_similarity_length:
  "cosine_similarity ext q m = Inr sims \<Longrightarrow> length sims = length m"
  by (auto simp: cosine_similarity_def split: if_splits)

lemma is_argsort_set: "is_argsort xs idxs \<Longrightarrow> set idxs = {0..<length xs}"
  by (metis is_argsort_def mset_eq_setD set_upt)


lemma argsort_stable_ok: "is_argsort xs (argsort_stable xs)"
  by (simp add: is_argsort_def argsort_stable_def)



lemma top_indices_set:
  assumes "is_argsort sims (np_argsort ext sims)"
  shows "set (top_indices ext sims k) \<subseteq> {0..<length sims}"
  using is_argsort_set[OF assms] set_drop_subset
  by (fastforce simp: top_indices_def py_slice_from_def Let_def)






lemma search_products_unfold:
  assumes load: "load_product_embeddings ext db = Inr (products, embeddings)"
    and ne: "products \<noteq> []"
    and emb: "embed_search_query ext query_text = Inr q"
    and cos: "cosine_similarity ext q embeddings = Inr sims"
    and srt: "is_argsort sims (np_argsort ext sims)"
  shows "search_products ext db query_text top_k
           = map (scored products sims) (top_indices ext sims top_k)"
proof -
  have len: "length sims = length products"
    using load cos by (simp add: cosine_similarity_length load_product_embeddings_length)
  have "\<forall>idx \<in> set (top_indices ext sims top_k). idx < length products \<and> idx < length sims"
    using top_indices_set[OF srt, of top_k] len by auto
  then have "build_results products sims (top_indices ext sims top_k)
           = Inr (map (scored products sims) (top_indices ext sims top_k))"
    by (simp add: build_results_def)
  then show ?thesis
    using load ne emb cos by (simp add: search_products_def search_products_try_def)
qed

lemma filter_drop_sorted:
  assumes "sorted_wrt R (filter P xs)"
  shows "sorted_wrt R (filter P (drop m xs))"
proof -
  have "filter P xs = filter P (take m xs) @ filter P (drop m xs)"
    by (metis append_take_drop_id filter_append)
  with assms show ?thesis by (simp add: sorted_wrt_append)
qed

lemma argsort_stable_ties:
  "sorted_wrt (<) (filter (\<lambda>i. xs ! i = v) (argsort_stable xs))"
proof -
  have "filter (\<lambda>i. xs ! i = v) (argsort_stable xs) = filter (\<lambda>i. xs ! i = v) [0..<length xs]"
    unfolding argsort_stable_def by (rule sort_key_stable)
  moreover have "sorted_wrt (<) (filter (\<lambda>i. xs ! i = v) [0..<length xs])"
    by (rule sorted_wrt_filter) (simp add: sorted_wrt_upt)
  ultimately show ?thesis by simp
qed

lemma top_indices_ties:
  assumes "np_argsort ext sims = argsort_stable sims"
  shows "sorted_wrt (>) (filter (\<lambda>i. sims ! i = v) (top_indices ext sims top_k))"
proof -
  let ?P = "\<lambda>i. sims ! i = v"
  have "sorted_wrt (<) (filter ?P (py_slice_from (- top_k) (argsort_stable sims)))"
    unfolding py_slice_from_def Let_def by (rule filter_drop_sorted[OF argsort_stable_ties])
  then have "sorted_wrt (>) (rev (filter ?P (py_slice_from (- top_k) (argsort_stable sims))))"
    by (simp only: sorted_wrt_rev)
  then show ?thesis by (simp only: top_indices_def assms rev_filter)
qed

lemma demo_load:
  "load_product_embeddings demo_ext demo_db
     = Inr ([loaded demo_A, loaded demo_B, loaded demo_C], [[1, 0], [0, 1], [1, 0]])"
  by code_simp

lemma demo_embed: "embed_search_query demo_ext ''filter'' = Inr [1, 0]"
  by code_simp

lemma demo_cosine:
  "cosine_similarity demo_ext [1, 0] [[1, 0], [0, 1], [1, 0]] = Inr [1, 0, 1]"
  by code_simp

lemma demo_argsort: "np_argsort demo_ext [1, 0, 1] = argsort_stable [1, 0, 1]"
  by (simp add: demo_ext_def)



text \<open>
  C9 (as amended). With an \<open>argsort\<close> that keeps ties in index order, the results are the
  loaded products at \<open>top_indices\<close>, and among the returned indices those of equal score
  decrease: tied products come out in the reverse of their load order.
\<close>

theorem search_products_ties_reversed:
  assumes load: "load_product_embeddings ext db = Inr (products, embeddings)"
    and ne: "products \<noteq> []"
    and emb: "embed_search_query ext query_text = Inr q"
    and cos: "cosine_similarity ext q embeddings = Inr sims"
    and srt: "np_argsort ext sims = argsort_stable sims"
  shows "search_products ext db query_text top_k
           = map (scored products sims) (top_indices ext sims top_k)
       \<and> (\<forall>v. sorted_wrt (>) (filter (\<lambda>i. sims ! i = v) (top_indices ext sims top_k)))"
proof -
  have "is_argsort sims (np_argsort ext sims)" by (simp add: srt argsort_stable_ok)
  from search_products_unfold[OF load ne emb cos this] top_indices_ties[OF srt]
  show ?thesis by blast
qed

theorem search_products_ties_reversed_witness:
  "search_products demo_ext demo_db ''filter'' 2
     = map (scored [loaded demo_A, loaded demo_B, loaded demo_C] [1, 0, 1])
           (top_indices demo_ext [1, 0, 1] 2)
   \<and> (\<forall>v. sorted_wrt (>) (filter (\<lambda>i. [1, 0, 1 :: real] ! i = v)
                                  (top_indices demo_ext [1, 0, 1] 2)))"
proof -
  have ne: "[loaded demo_A, loaded demo_B, loaded demo_C] \<noteq> []" by simp
  from search_products_ties_reversed[OF demo_load ne demo_embed demo_cosine demo_argsort]
  show ?thesis .
qed

theorem search_products_ties_counterexample:
  "map (\<lambda>r. py_get r ''sku'' Null) (search_products demo_ext demo_db ''filter'' 2)
     = [Text ''C'', Text ''A'']
   \<and> map similarity_of (search_products demo_ext demo_db ''filter'' 2) = [1, 1]
   \<and> map (\<lambda>r. py_get r ''sku'' Null) (fst (projr (load_product_embeddings demo_ext demo_db)))
     = [Text ''A'', Text ''B'', Text ''C'']"
  by code_simp

section \<open>Failures of the embedding service and of the store\<close>

text \<open>
  C2 (as amended). When the embedding call raises, \<open>search_products\<close> catches the exception
  and returns the empty list, and \<open>search\<close> returns normally: its raw result carries the
  parsed query, no products and the no-results response. No error reaches the caller.
\<close>

theorem search_embedding_failure_swallowed:
  assumes "embed_search_query ext query_text = Inl e"
  shows "search_products ext db query_text top_k = []
       \<and> search ext db config_db query_text top_k include_upsells True
           = Inr (Raw query_text (extract_query_intent ext query_text) []
                    (generate_no_results_response ext query_text
                       (extract_query_intent ext query_text)))
       \<and> search ext db config_db query_text top_k include_upsells False
           = Inr (Response (generate_no_results_response ext query_text
                              (extract_query_intent ext query_text)))"
proof -
  have "search_products_try ext db query_text top_k = Inr []
      \<or> (\<exists>e'. search_products_try ext db query_text top_k = Inl e')"
    using assms by (auto simp: search_products_try_def split: sum.splits prod.splits)
  then have sp: "search_products ext db query_text top_k = []"
    by (auto simp: search_products_def)
  then show ?thesis
    by (simp add: search_def hybrid_search_def generate_response_def Let_def)
qed

theorem search_embedding_failure_swallowed_witness:
  "search_products demo_ext demo_db ''offline'' 3 = []
   \<and> search demo_ext demo_db demo_db ''offline'' 3 True True
       = Inr (Raw ''offline'' (extract_query_intent demo_ext ''offline'') []
                (generate_no_results_response demo_ext ''offline''
                   (extract_query_intent demo_ext ''offline'')))"
proof -
  have "embed_search_query demo_ext ''offline'' = Inl APIError" by code_simp
  from search_embedding_failure_swallowed[OF this, of demo_db 3 demo_db True]
  show ?thesis by simp
qed

theorem search_embedding_failure_counterexample:
  "embed_search_query demo_ext ''offline'' = Inl APIError
   \<and> search demo_ext demo_db demo_db ''offline'' 3 True True
       = Inr (Raw ''offline'' (JDict (create_fallback_parse demo_ext ''offline'')) [] no_results_apology)"
  by code_simp

lemma map_of_select: "c \<in> set cols \<Longrightarrow> map_of (map (\<lambda>c. (c, f c)) cols) c = Some (f c)"
  by (induction cols) auto

lemma py_get_select_cols:
  "c \<in> set cols \<Longrightarrow> py_get (select_cols cols r) c dflt = py_get r c Null"
  by (simp add: py_get_def select_cols_def map_of_select)

lemma load_rows_none:
  "\<forall>r \<in> set rows. \<not> decodable ext r \<Longrightarrow> load_rows ext rows = ([], [])"
  by (induction rows) (auto simp: decodable_def split: sqlval.splits option.splits)

text \<open>
  C3 (as amended). When no row of the snapshot has a decodable embedding payload, the
  load does not fail: it returns no products and an empty matrix, and \<open>search_products\<close>
  returns the empty list, the value it also returns when the search fails.
\<close>

theorem load_without_decodable_rows:
  assumes "\<forall>r \<in> set table. \<not> decodable ext r"
  shows "load_product_embeddings ext (Some table) = Inr ([], [])
       \<and> search_products ext (Some table) query_text top_k = []"
proof -
  let ?cols = "[''sku'', ''product_name'', ''brand'', ''category'', ''sale_price'',
                ''embedding'']"
  let ?fetched = "map (select_cols ?cols)
                      (filter (\<lambda>row. py_get row ''embedding'' Null \<noteq> Null) table)"
  have "\<forall>r \<in> set ?fetched. \<not> decodable ext r"
    using assms by (auto simp: decodable_def py_get_select_cols)
  then have "load_rows ext ?fetched = ([], [])" by (rule load_rows_none)
  then have load: "load_product_embeddings ext (Some table) = Inr ([], [])"
    by (simp add: load_product_embeddings_def)
  then show ?thesis
    by (simp add: search_products_def search_products_try_def)
qed

theorem load_without_decodable_rows_witness:
  "load_product_embeddings demo_ext (Some [demo_D, demo_E]) = Inr ([], [])
   \<and> search_products demo_ext (Some [demo_D, demo_E]) ''filter'' 3 = []"
proof -
  have "\<forall>r \<in> set [demo_D, demo_E]. \<not> decodable demo_ext r" by code_simp
  from load_without_decodable_rows[OF this] show ?thesis by blast
qed

theorem load_without_decodable_rows_counterexample:
  "load_product_embeddings demo_ext (Some [demo_D, demo_E]) = Inr ([], [])
   \<and> search_products demo_ext (Some [demo_D, demo_E]) ''filter'' 3
       = search_products demo_ext demo_db ''offline'' 3"
  by code_simp

section \<open>Parsing the query\<close>

lemma fill_required_dict:
  "\<exists>d'. fill_required (JDict d) fs = Inr (JDict d')
       \<and> (\<forall>k. map_of d' k = (if map_of d k \<noteq> None then map_of d k
                             else if k \<in> set fs then Some JNull else None))"
proof (induction fs arbitrary: d)
  case Nil
  show ?case by auto
next
  case (Cons f fs)
  let ?d1 = "if map_of d f = None then dict_set d f JNull else d"
  from Cons.IH[of ?d1] obtain d' where
    d': "fill_required (JDict ?d1) fs = Inr (JDict d')"
    and m: "\<forall>k. map_of d' k = (if map_of ?d1 k \<noteq> None then map_of ?d1 k
                               else if k \<in> set fs then Some JNull else None)"
    by blast
  have "\<forall>k. map_of d' k = (if map_of d k \<noteq> None then map_of d k
                           else if k \<in> set (f # fs) then Some JNull else None)"
    using m by (auto simp: map_of_dict_set)
  with d' show ?case by auto
qed

text \<open>
  C4 (as amended). When the model's output parses to a JSON object, the parser returns
  that object with the five keys intent, part\_type, brand, category and keywords set to
  null where they were missing; every key of the object keeps its value, and no other key
  is added: model\_number, price\_sensitivity and urgency stay absent when the model left
  them out.
\<close>

theorem parse_query_fills_five_keys:
  assumes "chat_create ext GPT_SYSTEM_PROMPT query_text = Inr response_text"
    and "json_loads ext response_text = Some (JDict d)"
  shows "\<exists>d'. parse_query_with_gpt ext query_text = JDict d'
       \<and> (\<forall>k. map_of d' k =
              (if map_of d k \<noteq> None then map_of d k
               else if k \<in> {''intent'', ''part_type'', ''brand'', ''category'', ''keywords''}
               then Some JNull else None))"
proof -
  from fill_required_dict[of d required_fields] obtain d' where
    "fill_required (JDict d) required_fields = Inr (JDict d')"
    and "\<forall>k. map_of d' k = (if map_of d k \<noteq> None then map_of d k
                            else if k \<in> set required_fields then Some JNull else None)"
    by blast
  then show ?thesis
    using assms by (auto simp: parse_query_with_gpt_def call_gpt_api_def required_fields_def)
qed

theorem parse_query_fills_five_keys_witness:
  "parse_query_with_gpt
     (demo_chat ''reply'' (Some (JDict [(''brand'', JStr ''GE''), (''urgency'', JStr ''urgent'')])))
     ''ge filter''
   = JDict [(''brand'', JStr ''GE''), (''urgency'', JStr ''urgent''), (''intent'', JNull),
            (''part_type'', JNull), (''category'', JNull), (''keywords'', JNull)]"
proof -
  let ?ext = "demo_chat ''reply'' (Some (JDict [(''brand'', JStr ''GE''),
                                                (''urgency'', JStr ''urgent'')]))"
  have a: "chat_create ?ext GPT_SYSTEM_PROMPT ''ge filter'' = Inr ''reply''"
    by (simp add: demo_chat_def)
  have b: "json_loads ?ext ''reply''
             = Some (JDict [(''brand'', JStr ''GE''), (''urgency'', JStr ''urgent'')])"
    by (simp add: demo_chat_def)
  from parse_query_fills_five_keys[OF a b] obtain d' where
    "parse_query_with_gpt ?ext ''ge filter'' = JDict d'" by blast
  moreover have "parse_query_with_gpt ?ext ''ge filter''
     = JDict [(''brand'', JStr ''GE''), (''urgency'', JStr ''urgent''), (''intent'', JNull),
              (''part_type'', JNull), (''category'', JNull), (''keywords'', JNull)]"
    by code_simp
  ultimately show ?thesis by simp
qed

theorem parse_query_missing_keys_counterexample:
  "parse_query_with_gpt (demo_chat ''{}'' (Some (JDict []))) ''ge filter''
     = JDict [(''intent'', JNull), (''part_type'', JNull), (''brand'', JNull),
              (''category'', JNull), (''keywords'', JNull)]
   \<and> map_of [(''intent'', JNull), (''part_type'', JNull), (''brand'', JNull),
             (''category'', JNull), (''keywords'', JNull)] ''model_number'' = None"
  by code_simp

lemma find_SomeD: "find P xs = Some x \<Longrightarrow> x \<in> set xs \<and> P x"
  by (induction xs) (auto split: if_splits)

lemma detected_brand_cases:
  "(detected_brand ext q = JNull \<and> (\<forall>b \<in> set brands. \<not> is_substring b (str_lower ext q)))
   \<or> (\<exists>b \<in> set brands. is_substring b (str_lower ext q)
         \<and> detected_brand ext q = JStr (str_title ext b))"
proof (cases "find (\<lambda>brand. is_substring brand (str_lower ext q)) brands")
  case None
  then have "\<forall>b \<in> set brands. \<not> is_substring b (str_lower ext q)"
    by (auto simp: find_None_iff)
  moreover have "detected_brand ext q = JNull"
    using None by (simp add: detected_brand_def)
  ultimately show ?thesis by blast
next
  case (Some b)
  then have "b \<in> set brands \<and> is_substring b (str_lower ext q)"
    by (auto dest: find_SomeD)
  with Some show ?thesis by (auto simp: detected_brand_def)
qed

lemma detected_category_cases:
  "(detected_category ext q = JNull
      \<and> (\<forall>(c, ks) \<in> set categories. \<forall>k \<in> set ks. \<not> is_substring k (str_lower ext q)))
   \<or> (\<exists>(c, ks) \<in> set categories.
         (\<exists>k \<in> set ks. is_substring k (str_lower ext q)) \<and> detected_category ext q = JStr c)"
proof (cases "find (\<lambda>(category, keywords).
                      \<exists>keyword \<in> set keywords. is_substring keyword (str_lower ext q))
                   categories")
  case None
  then have "\<forall>(c, ks) \<in> set categories. \<forall>k \<in> set ks. \<not> is_substring k (str_lower ext q)"
    by (auto simp: find_None_iff)
  moreover have "detected_category ext q = JNull"
    using None by (simp add: detected_category_def)
  ultimately show ?thesis by blast
next
  case (Some ck)
  obtain c ks where ck: "ck = (c, ks)" by (cases ck)
  from Some have mem: "(c, ks) \<in> set categories"
    and hit: "\<exists>k \<in> set ks. is_substring k (str_lower ext q)"
    unfolding ck by (auto dest: find_SomeD)
  have "detected_category ext q = JStr c"
    using Some unfolding ck by (simp add: detected_category_def)
  with mem hit show ?thesis by blast
qed

text \<open>
  C5. When the model call raises, or its output is not JSON, the parser returns the
  rule-based fallback parse and raises nothing: all eight keys and \<open>fallback = True\<close>,
  intent \<open>find_part\<close>, urgency \<open>normal\<close>, as keywords the first ten words of what
  \<open>str.split()\<close> makes of the lower-cased query, a brand of the fixed list that occurs
  in the lower-cased query (title-cased) or null when none does, and a category of the
  fixed table one of whose keywords occurs in it or null when none does. Lower-casing and
  splitting are those of the interpreter, on every query.
\<close>

theorem parse_query_fallback:
  assumes "(\<exists>e. chat_create ext GPT_SYSTEM_PROMPT q = Inl e)
         \<or> (\<exists>t. chat_create ext GPT_SYSTEM_PROMPT q = Inr t \<and> json_loads ext t = None)"
  shows "parse_query_with_gpt ext q = JDict (create_fallback_parse ext q)
       \<and> map fst (create_fallback_parse ext q)
           = [''intent'', ''part_type'', ''brand'', ''model_number'', ''category'', ''keywords'',
              ''price_sensitivity'', ''urgency'', ''fallback'']
       \<and> map_of (create_fallback_parse ext q) ''fallback'' = Some (JBool True)
       \<and> map_of (create_fallback_parse ext q) ''intent'' = Some (JStr ''find_part'')
       \<and> map_of (create_fallback_parse ext q) ''urgency'' = Some (JStr ''normal'')
       \<and> map_of (create_fallback_parse ext q) ''keywords''
           = Some (JList (map JStr (take 10 (str_split ext (str_lower ext q)))))
       \<and> map_of (create_fallback_parse ext q) ''brand'' = Some (detected_brand ext q)
       \<and> ((detected_brand ext q = JNull
             \<and> (\<forall>b \<in> set brands. \<not> is_substring b (str_lower ext q)))
          \<or> (\<exists>b \<in> set brands. is_substring b (str_lower ext q)
                \<and> detected_brand ext q = JStr (str_title ext b)))
       \<and> map_of (create_fallback_parse ext q) ''category'' = Some (detected_category ext q)
       \<and> ((detected_category ext q = JNull
             \<and> (\<forall>(c, ks) \<in> set categories. \<forall>k \<in> set ks. \<not> is_substring k (str_lower ext q)))
          \<or> (\<exists>(c, ks) \<in> set categories.
                (\<exists>k \<in> set ks. is_substring k (str_lower ext q)) \<and> detected_category ext q = JStr c))"
proof -
  have p: "parse_query_with_gpt ext q = JDict (create_fallback_parse ext q)"
    using assms by (auto simp: parse_query_with_gpt_def call_gpt_api_def)
  have shape: "map fst (create_fallback_parse ext q)
           = [''intent'', ''part_type'', ''brand'', ''model_number'', ''category'', ''keywords'',
              ''price_sensitivity'', ''urgency'', ''fallback'']"
    by (simp add: create_fallback_parse_def Let_def)
  have f1: "map_of (create_fallback_parse ext q) ''fallback'' = Some (JBool True)"
    by (simp add: create_fallback_parse_def Let_def)
  have f2: "map_of (create_fallback_parse ext q) ''intent'' = Some (JStr ''find_part'')"
    by (simp add: create_fallback_parse_def Let_def)
  have f3: "map_of (create_fallback_parse ext q) ''urgency'' = Some (JStr ''normal'')"
    by (simp add: create_fallback_parse_def Let_def)
  have f4: "map_of (create_fallback_parse ext q) ''keywords''
           = Some (JList (map JStr (take 10 (str_split ext (str_lower ext q)))))"
    by (simp add: create_fallback_parse_def Let_def)
  have f5: "map_of (create_fallback_parse ext q) ''brand'' = Some (detected_brand ext q)"
    by (simp add: create_fallback_parse_def Let_def)
  have f6: "map_of (create_fallback_parse ext q) ''category'' = Some (detected_category ext q)"
    by (simp add: create_fallback_parse_def Let_def)
  from p shape f1 f2 f3 f4 f5 f6 detected_brand_cases[of ext q] detected_category_cases[of ext q]
  show ?thesis by blast
qed

theorem parse_query_fallback_witness:
  "parse_query_with_gpt demo_ext ''Need a GE fridge filter''
     = JDict (create_fallback_parse demo_ext ''Need a GE fridge filter'')
   \<and> create_fallback_parse demo_ext ''Need a GE fridge filter''
     = [(''intent'', JStr ''find_part''), (''part_type'', JNull), (''brand'', JStr ''Ge''),
        (''model_number'', JNull), (''category'', JStr ''refrigerator''),
        (''keywords'', JList [JStr ''need'', JStr ''a'', JStr ''ge'', JStr ''fridge'',
                              JStr ''filter'']),
        (''price_sensitivity'', JNull), (''urgency'', JStr ''normal''),
        (''fallback'', JBool True)]"
proof -
  have "(\<exists>e. chat_create demo_ext GPT_SYSTEM_PROMPT ''Need a GE fridge filter'' = Inl e)
      \<or> (\<exists>t. chat_create demo_ext GPT_SYSTEM_PROMPT ''Need a GE fridge filter'' = Inr t
              \<and> json_loads demo_ext t = None)"
    by (simp add: demo_ext_def)
  from parse_query_fallback[OF this]
  have "parse_query_with_gpt demo_ext ''Need a GE fridge filter''
          = JDict (create_fallback_parse demo_ext ''Need a GE fridge filter'')"
    by blast
  moreover have "create_fallback_parse demo_ext ''Need a GE fridge filter''
     = [(''intent'', JStr ''find_part''), (''part_type'', JNull), (''brand'', JStr ''Ge''),
        (''model_number'', JNull), (''category'', JStr ''refrigerator''),
        (''keywords'', JList [JStr ''need'', JStr ''a'', JStr ''ge'', JStr ''fridge'',
                              JStr ''filter'']),
        (''price_sensitivity'', JNull), (''urgency'', JStr ''normal''),
        (''fallback'', JBool True)]"
    by code_simp
  ultimately show ?thesis by blast
qed

section \<open>Upsells\<close>

lemma sql_limit_member: "u \<in> set (sql_limit n xs) \<Longrightarrow> u \<in> set xs"
  by (auto simp: sql_limit_def dest: in_set_takeD split: if_splits)

lemma sql_limit_length: "0 \<le> n \<Longrightarrow> length (sql_limit n xs) \<le> nat n"
  by (simp add: sql_limit_def)

lemma if_nil_cases: "(if a then [] else if b then xs else []) = [] \<or> (if a then [] else if b then xs else []) = xs"
  by simp

lemma suggest_upsells_cases:
  "suggest_upsells ext (Some table) primary_products n = []
   \<or> suggest_upsells ext (Some table) primary_products n
       = sql_limit n
           (filter (\<lambda>r. sql_not_in (py_get r ''sku'' Null)
                          (filter truthy (map (\<lambda>p. py_get p ''sku'' Null) primary_products))
                 \<and> sql_eq (py_get r ''brand'' Null)
                      (py_get (hd primary_products) ''brand'' (Text [])) = Some True
                 \<and> sql_eq (py_get r ''in_stock'' Null) (Integer 1) = Some True) table)"
  unfolding suggest_upsells_def Let_def option.case by (rule if_nil_cases)

lemma suggest_upsells_member:
  assumes "u \<in> set (suggest_upsells ext (Some table) primary_products n)"
  shows "u \<in> set table
       \<and> sql_not_in (py_get u ''sku'' Null)
            (filter truthy (map (\<lambda>p. py_get p ''sku'' Null) primary_products))
       \<and> sql_eq (py_get u ''brand'' Null) (py_get (hd primary_products) ''brand'' (Text []))
            = Some True
       \<and> sql_eq (py_get u ''in_stock'' Null) (Integer 1) = Some True"
proof -
  define P where "P = (\<lambda>r. sql_not_in (py_get r ''sku'' Null)
                          (filter truthy (map (\<lambda>p. py_get p ''sku'' Null) primary_products))
                 \<and> sql_eq (py_get r ''brand'' Null)
                      (py_get (hd primary_products) ''brand'' (Text [])) = Some True
                 \<and> sql_eq (py_get r ''in_stock'' Null) (Integer 1) = Some True)"
  have cases: "suggest_upsells ext (Some table) primary_products n = []
             \<or> suggest_upsells ext (Some table) primary_products n = sql_limit n (filter P table)"
    unfolding P_def by (rule suggest_upsells_cases)
  have "u \<in> set (sql_limit n (filter P table))"
  proof (rule disjE[OF cases])
    assume e: "suggest_upsells ext (Some table) primary_products n = []"
    from assms have "u \<in> set []" by (simp only: e)
    then have False by simp
    then show ?thesis by (rule FalseE)
  next
    assume e: "suggest_upsells ext (Some table) primary_products n
                 = sql_limit n (filter P table)"
    from assms show ?thesis by (simp only: e)
  qed
  then have "u \<in> set (filter P table)" by (rule sql_limit_member)
  then have "u \<in> set table \<and> P u" by simp
  then show ?thesis unfolding P_def by blast
qed

lemma has_sku_truthy: "has_sku p \<Longrightarrow> truthy (py_get p ''sku'' Null)"
  by (cases "py_get p ''sku'' Null") (simp_all add: has_sku_def)

lemma primary_skus_all:
  assumes "\<forall>p \<in> set ps. has_sku p"
  shows "filter truthy (map (\<lambda>p. py_get p ''sku'' Null) ps) = map (\<lambda>p. py_get p ''sku'' Null) ps"
  using assms by (induction ps) (simp_all add: has_sku_truthy)

lemma sql_eq_typed_stock:
  "int_or_null x \<Longrightarrow> sql_eq x (Integer 1) = Some True \<Longrightarrow> x = Integer 1"
  by (cases x) (simp_all add: int_or_null_def)

lemma sql_eq_typed_brand:
  "text_or_null x \<Longrightarrow> sql_eq x y = Some True \<Longrightarrow> x = y"
  by (cases x; cases y) (simp_all add: text_or_null_def)

lemma sql_not_in_distinct:
  assumes "sql_not_in x ys" and "ys \<noteq> []"
  shows "\<forall>y \<in> set ys. sql_eq x y = Some False \<and> x \<noteq> y"
proof
  fix y assume y: "y \<in> set ys"
  from assms y have f: "sql_eq x y = Some False" by (simp add: sql_not_in_def)
  have "x \<noteq> y"
  proof
    assume "x = y"
    with f have "sql_eq y y = Some False" by simp
    then show False using sql_eq_same[of y] by simp
  qed
  with f show "sql_eq x y = Some False \<and> x \<noteq> y" by simp
qed

lemma suggest_upsells_sound:
  assumes ne: "primary_products \<noteq> []"
    and prim: "\<forall>p \<in> set primary_products. has_sku p"
    and cat: "\<forall>r \<in> set table. typed_row r"
    and u: "u \<in> set (suggest_upsells ext (Some table) primary_products n)"
  shows "u \<in> set table
       \<and> (\<forall>p \<in> set primary_products.
             sql_eq (py_get u ''sku'' Null) (py_get p ''sku'' Null) = Some False
             \<and> py_get u ''sku'' Null \<noteq> py_get p ''sku'' Null)
       \<and> py_get u ''brand'' Null = py_get (hd primary_products) ''brand'' (Text [])
       \<and> py_get u ''in_stock'' Null = Integer 1"
proof -
  let ?skus = "map (\<lambda>p. py_get p ''sku'' Null) primary_products"
  from suggest_upsells_member[OF u] have mem: "u \<in> set table"
    and ni: "sql_not_in (py_get u ''sku'' Null) (filter truthy ?skus)"
    and br: "sql_eq (py_get u ''brand'' Null) (py_get (hd primary_products) ''brand'' (Text []))
               = Some True"
    and st: "sql_eq (py_get u ''in_stock'' Null) (Integer 1) = Some True"
    by simp_all
  from ni have ni': "sql_not_in (py_get u ''sku'' Null) ?skus"
    by (simp only: primary_skus_all[OF prim])
  have "?skus \<noteq> []" using ne by simp
  from sql_not_in_distinct[OF ni' this]
  have d: "\<forall>p \<in> set primary_products.
             sql_eq (py_get u ''sku'' Null) (py_get p ''sku'' Null) = Some False
             \<and> py_get u ''sku'' Null \<noteq> py_get p ''sku'' Null"
    by simp
  from cat mem have t: "typed_row u" by simp
  have b: "py_get u ''brand'' Null = py_get (hd primary_products) ''brand'' (Text [])"
    using t br by (simp add: typed_row_def sql_eq_typed_brand)
  have s: "py_get u ''in_stock'' Null = Integer 1"
    using t st by (simp add: typed_row_def sql_eq_typed_stock)
  from mem d b s show ?thesis by simp
qed

lemma demo_typed: "\<forall>r \<in> set [demo_A, demo_B, demo_C, demo_D, demo_E]. typed_row r"
  by code_simp

lemma demo_upsells_A:
  "suggest_upsells demo_ext (Some [demo_A, demo_B, demo_C, demo_D, demo_E]) [demo_A] 2
     = [demo_C, demo_D]"
  by code_simp



lemma nonempty_member: "xs \<noteq> [] \<Longrightarrow> \<exists>x. x \<in> set xs"
  by (cases xs) auto

lemma suggest_upsells_length:
  "0 \<le> n \<Longrightarrow> length (suggest_upsells ext (Some table) primary_products n) \<le> nat n"
proof -
  assume n: "0 \<le> n"
  show ?thesis
  proof (rule disjE[OF suggest_upsells_cases[of ext table primary_products n]])
    assume e: "suggest_upsells ext (Some table) primary_products n = []"
    show ?thesis by (simp only: e) simp
  next
    assume e: "suggest_upsells ext (Some table) primary_products n
       = sql_limit n
           (filter (\<lambda>r. sql_not_in (py_get r ''sku'' Null)
                          (filter truthy (map (\<lambda>p. py_get p ''sku'' Null) primary_products))
                 \<and> sql_eq (py_get r ''brand'' Null)
                      (py_get (hd primary_products) ''brand'' (Text [])) = Some True
                 \<and> sql_eq (py_get r ''in_stock'' Null) (Integer 1) = Some True) table)"
    show ?thesis by (simp only: e) (rule sql_limit_length[OF n])
  qed
qed

text \<open>
  C7 (as amended). For a non-empty list of primary products with SKUs and a typed
  catalogue, every upsell is a row of the catalogue whose brand is the brand of the first
  primary product, and a non-negative \<open>num_suggestions\<close> bounds their number. Nothing is
  relaxed: when no row of the catalogue is of that brand, in stock and outside the primary
  SKUs, the result is empty, whatever else the catalogue holds.
\<close>

theorem suggest_upsells_brand_only:
  assumes ne: "primary_products \<noteq> []"
    and prim: "\<forall>p \<in> set primary_products. has_sku p"
    and cat: "\<forall>r \<in> set table. typed_row r"
  shows "(\<forall>u \<in> set (suggest_upsells ext (Some table) primary_products num_suggestions).
            u \<in> set table
            \<and> py_get u ''brand'' Null = py_get (hd primary_products) ''brand'' (Text []))
       \<and> (0 \<le> num_suggestions \<longrightarrow>
            length (suggest_upsells ext (Some table) primary_products num_suggestions)
              \<le> nat num_suggestions)
       \<and> ((\<forall>r \<in> set table.
               py_get r ''brand'' Null \<noteq> py_get (hd primary_products) ''brand'' (Text [])
               \<or> py_get r ''in_stock'' Null \<noteq> Integer 1
               \<or> py_get r ''sku'' Null \<in> (\<lambda>p. py_get p ''sku'' Null) ` set primary_products)
            \<longrightarrow> suggest_upsells ext (Some table) primary_products num_suggestions = [])"
proof -
  let ?res = "suggest_upsells ext (Some table) primary_products num_suggestions"
  have a: "\<forall>u \<in> set ?res. u \<in> set table
            \<and> py_get u ''brand'' Null = py_get (hd primary_products) ''brand'' (Text [])"
  proof
    fix u assume "u \<in> set ?res"
    from suggest_upsells_sound[OF ne prim cat this]
    show "u \<in> set table
            \<and> py_get u ''brand'' Null = py_get (hd primary_products) ''brand'' (Text [])"
      by simp
  qed
  have b: "0 \<le> num_suggestions \<longrightarrow> length ?res \<le> nat num_suggestions"
    using suggest_upsells_length by simp
  have c: "?res = []"
    if none: "\<forall>r \<in> set table.
               py_get r ''brand'' Null \<noteq> py_get (hd primary_products) ''brand'' (Text [])
               \<or> py_get r ''in_stock'' Null \<noteq> Integer 1
               \<or> py_get r ''sku'' Null \<in> (\<lambda>p. py_get p ''sku'' Null) ` set primary_products"
  proof (rule ccontr)
    assume "?res \<noteq> []"
    from nonempty_member[OF this] obtain u where u: "u \<in> set ?res" ..
    from suggest_upsells_sound[OF ne prim cat u]
    have m: "u \<in> set table"
      and d: "\<forall>p \<in> set primary_products. py_get u ''sku'' Null \<noteq> py_get p ''sku'' Null"
      and br: "py_get u ''brand'' Null = py_get (hd primary_products) ''brand'' (Text [])"
      and st: "py_get u ''in_stock'' Null = Integer 1"
      by simp_all
    from d have "py_get u ''sku'' Null \<notin> (\<lambda>p. py_get p ''sku'' Null) ` set primary_products"
      by (simp add: image_iff)
    with none m br st show False by simp
  qed
  show ?thesis
    apply (intro conjI)
      apply (rule a)
     apply (rule b)
    apply (rule impI)
    apply (rule c)
    apply assumption
    done
qed

theorem suggest_upsells_brand_only_witness:
  "length (suggest_upsells demo_ext (Some [demo_A, demo_B, demo_C, demo_D, demo_E]) [demo_A] 2)
     \<le> 2
   \<and> suggest_upsells demo_ext (Some [demo_A, demo_B, demo_C, demo_D, demo_E]) [demo_B] 2 = []"
proof -
  have ne: "[demo_B] \<noteq> []" by simp
  have prim: "\<forall>p \<in> set [demo_B]. has_sku p" by code_simp
  have none: "\<forall>r \<in> set [demo_A, demo_B, demo_C, demo_D, demo_E].
               py_get r ''brand'' Null \<noteq> py_get (hd [demo_B]) ''brand'' (Text [])
               \<or> py_get r ''in_stock'' Null \<noteq> Integer 1
               \<or> py_get r ''sku'' Null \<in> (\<lambda>p. py_get p ''sku'' Null) ` set [demo_B]"
    by code_simp
  from suggest_upsells_brand_only[OF ne prim demo_typed, of demo_ext 2] none
  have e: "suggest_upsells demo_ext (Some [demo_A, demo_B, demo_C, demo_D, demo_E]) [demo_B] 2 = []"
    by blast
  have "length (suggest_upsells demo_ext (Some [demo_A, demo_B, demo_C, demo_D, demo_E])
                  [demo_A] 2) \<le> 2"
    by (simp only: demo_upsells_A) simp
  with e show ?thesis by simp
qed

theorem suggest_upsells_band_counterexample:
  "suggest_upsells demo_ext demo_db [demo_B] 2 = []
   \<and> demo_db = Some [demo_A, demo_B, demo_C, demo_D, demo_E]
   \<and> py_get demo_A ''in_stock'' Null = Integer 1
   \<and> py_get demo_A ''sku'' Null \<noteq> py_get demo_B ''sku'' Null
   \<and> suggest_upsells demo_ext demo_db [demo_A] 2 = [demo_C, demo_D]
   \<and> py_get demo_A ''sale_price'' Null = Real 10
   \<and> py_get demo_D ''sale_price'' Null = Real 500
   \<and> \<not> (500 :: real) \<le> 1.5 * 10"
  by code_simp

end
